theory Spec2Isabelle
  imports Main "HOL-Library.Multiset" "HOL-Library.Word"
begin

section \<open>Values of the host language\<close>

text \<open>
  The module \<^verbatim>\<open>sagemaker/workflow/conditions.py\<close> builds condition nodes over
  operands that are arbitrary Python values and renders them into nested
  dictionaries. Exceptions are values: a failing operation returns \<open>Inl\<close>.
\<close>

datatype error = TypeError | AttributeError | RecursionError

text \<open>
  The four classes named in the \<^verbatim>\<open>isinstance\<close> test of \<^verbatim>\<open>primitive_or_expr\<close>.
  An instance of a subclass is an instance of the class.
\<close>

datatype deferred_class = ExecutionVariable | Expression | Parameter | Properties

text \<open>
  Modelled from the spec: the classes \<^verbatim>\<open>ExecutionVariable\<close>, \<^verbatim>\<open>Expression\<close>,
  \<^verbatim>\<open>Parameter\<close> and \<^verbatim>\<open>Properties\<close> are imported from modules that are not part
  of the sources at hand. The specification (external interfaces) says that
  each of them exposes an \<^verbatim>\<open>expr\<close> accessor yielding a JSON-like structure, so
  an instance \<open>Deferred c e\<close> carries the structure \<open>e\<close> its accessor yields.

  \<open>Instance n a\<close> is an object of any other class \<open>n\<close>; \<open>a\<close> is the value of its
  \<^verbatim>\<open>expr\<close> attribute when it has one. A float is its IEEE-754 bit pattern; no
  arithmetic is ever done on it here. A dictionary is the list of its items in
  insertion order.
\<close>

datatype pyval =
    PNone
  | PBool bool
  | PInt int
  | PFloat "64 word"
  | PStr string
  | PList "pyval list"
  | PDict "(string \<times> pyval) list"
  | Deferred deferred_class pyval
  | Instance string "pyval option"

text \<open>Sequencing of computations that may raise.\<close>

definition ebind :: "error + 'a \<Rightarrow> ('a \<Rightarrow> error + 'b) \<Rightarrow> error + 'b" where
  "ebind m f = (case m of Inl e \<Rightarrow> Inl e | Inr x \<Rightarrow> f x)"

text \<open>
  A list comprehension \<^verbatim>\<open>[f(x) for x in xs]\<close>: elements are evaluated left to
  right and the first exception ends the evaluation.
\<close>

fun comprehension :: "('a \<Rightarrow> error + 'b) \<Rightarrow> 'a list \<Rightarrow> error + 'b list" where
  "comprehension f [] = Inr []"
| "comprehension f (x # xs) =
     ebind (f x) (\<lambda>y. ebind (comprehension f xs) (\<lambda>ys. Inr (y # ys)))"

text \<open>The attribute access \<^verbatim>\<open>v.expr\<close>.\<close>

fun getattr_expr :: "pyval \<Rightarrow> error + pyval" where
  "getattr_expr (Deferred c e) = Inr e"
| "getattr_expr (Instance n (Some e)) = Inr e"
| "getattr_expr v = Inl AttributeError"

text \<open>
  The test \<^verbatim>\<open>isinstance(value, (ExecutionVariable, Expression, Parameter, Properties))\<close>.
\<close>

fun isinstance_deferred :: "pyval \<Rightarrow> bool" where
  "isinstance_deferred (Deferred c e) = True"
| "isinstance_deferred v = False"

text \<open>\<^verbatim>\<open>primitive_or_expr\<close>, lines 231 to 244.\<close>

definition primitive_or_expr :: "pyval \<Rightarrow> error + pyval" where
  "primitive_or_expr v = (if isinstance_deferred v then getattr_expr v else Inr v)"


section \<open>Condition nodes\<close>

text \<open>\<^verbatim>\<open>ConditionTypeEnum\<close> and the \<^verbatim>\<open>value\<close> of each member.\<close>

datatype ConditionTypeEnum = EQ | GT | GTE | IN | LT | LTE | NOT | OR

fun enum_value :: "ConditionTypeEnum \<Rightarrow> string" where
  "enum_value EQ = ''Equals''"
| "enum_value GT = ''GreaterThan''"
| "enum_value GTE = ''GreaterThanOrEqualTo''"
| "enum_value IN = ''In''"
| "enum_value LT = ''LessThan''"
| "enum_value LTE = ''LessThanOrEqualTo''"
| "enum_value NOT = ''Not''"
| "enum_value OR = ''Or''"

text \<open>
  An object of each class with the attributes its constructor sets. The five
  fixed-kind comparison classes add no attribute and no method to
  \<^verbatim>\<open>ConditionComparison\<close>, so their instances are \<open>ConditionComparison\<close> objects.
\<close>

datatype condition =
    ConditionComparison (condition_type: ConditionTypeEnum) (left: pyval) (right: pyval)
  | ConditionIn (condition_type: ConditionTypeEnum) (query_value: pyval) (in_values: "pyval list")
  | ConditionNot (condition_type: ConditionTypeEnum) (expression: condition)
  | ConditionOr (condition_type: ConditionTypeEnum) (conditions: "condition list")


subsection \<open>Rendering\<close>

text \<open>
  The four \<^verbatim>\<open>to_request\<close> methods, as they run while the interpreter's stack
  suffices; the recursion limit is added in \<open>to_request_limit\<close> below. A
  dictionary display evaluates its items in order; \<open>to_request_all\<close> is the
  comprehension over \<^verbatim>\<open>self.conditions\<close>.
\<close>

fun to_request :: "condition \<Rightarrow> error + pyval"
  and to_request_all :: "condition list \<Rightarrow> error + pyval list" where
  "to_request (ConditionComparison t l r) =
     ebind (getattr_expr l) (\<lambda>le.
     ebind (primitive_or_expr r) (\<lambda>re.
       Inr (PDict [(''Type'', PStr (enum_value t)), (''LeftValue'', le), (''RightValue'', re)])))"
| "to_request (ConditionIn t v vs) =
     ebind (getattr_expr v) (\<lambda>qe.
     ebind (comprehension primitive_or_expr vs) (\<lambda>rs.
       Inr (PDict [(''Type'', PStr (enum_value t)), (''QueryValue'', qe), (''Values'', PList rs)])))"
| "to_request (ConditionNot t c) =
     ebind (to_request c) (\<lambda>r.
       Inr (PDict [(''Type'', PStr (enum_value t)), (''Expression'', r)]))"
| "to_request (ConditionOr t cs) =
     ebind (to_request_all cs) (\<lambda>rs.
       Inr (PDict [(''Type'', PStr (enum_value t)), (''Conditions'', PList rs)]))"
| "to_request_all [] = Inr []"
| "to_request_all (c # cs) =
     ebind (to_request c) (\<lambda>r. ebind (to_request_all cs) (\<lambda>rs. Inr (r # rs)))"


subsection \<open>Constructors\<close>

text \<open>
  An argument of a call is \<open>Some v\<close> when the caller supplies it and \<open>None\<close> when
  the caller leaves it out. A parameter declared without a default raises
  \<^verbatim>\<open>TypeError\<close> when it is left out; the body of the constructor is not entered.

  \<^verbatim>\<open>ConditionComparison\<close> has the constructor that \<^verbatim>\<open>attr.s\<close> generates from its
  attributes: \<^verbatim>\<open>left\<close> and \<^verbatim>\<open>right\<close> are declared with \<^verbatim>\<open>default=None\<close>. Its first
  parameter \<open>t\<close> is the \<^verbatim>\<open>condition_type\<close> the object gets: the member the caller
  passes or, when left out, the member produced by \<^verbatim>\<open>ConditionTypeEnum.factory\<close>,
  which is defined outside the sources at hand.
\<close>

definition ConditionComparison_init ::
  "ConditionTypeEnum \<Rightarrow> pyval option \<Rightarrow> pyval option \<Rightarrow> condition" where
  "ConditionComparison_init t l r =
     ConditionComparison t (case l of None \<Rightarrow> PNone | Some v \<Rightarrow> v)
                           (case r of None \<Rightarrow> PNone | Some v \<Rightarrow> v)"

text \<open>
  The hand-written constructors of the five comparison classes: both parameters
  are required and are passed on together with the class's own enum member.
\<close>

definition comparison_subclass_init ::
  "ConditionTypeEnum \<Rightarrow> pyval option \<Rightarrow> pyval option \<Rightarrow> error + condition" where
  "comparison_subclass_init t l r =
     (case l of None \<Rightarrow> Inl TypeError
      | Some lv \<Rightarrow> (case r of None \<Rightarrow> Inl TypeError
          | Some rv \<Rightarrow> Inr (ConditionComparison_init t (Some lv) (Some rv))))"

definition ConditionEquals_init :: "pyval option \<Rightarrow> pyval option \<Rightarrow> error + condition" where
  "ConditionEquals_init l r = comparison_subclass_init EQ l r"

definition ConditionGreaterThan_init :: "pyval option \<Rightarrow> pyval option \<Rightarrow> error + condition" where
  "ConditionGreaterThan_init l r = comparison_subclass_init GT l r"

definition ConditionGreaterThanOrEqualTo_init ::
  "pyval option \<Rightarrow> pyval option \<Rightarrow> error + condition" where
  "ConditionGreaterThanOrEqualTo_init l r = comparison_subclass_init GTE l r"

definition ConditionLessThan_init :: "pyval option \<Rightarrow> pyval option \<Rightarrow> error + condition" where
  "ConditionLessThan_init l r = comparison_subclass_init LT l r"

definition ConditionLessThanOrEqualTo_init ::
  "pyval option \<Rightarrow> pyval option \<Rightarrow> error + condition" where
  "ConditionLessThanOrEqualTo_init l r = comparison_subclass_init LTE l r"

text \<open>\<^verbatim>\<open>ConditionIn.__init__(self, value, in_values)\<close>: both parameters required.\<close>

definition ConditionIn_init :: "pyval option \<Rightarrow> pyval list option \<Rightarrow> error + condition" where
  "ConditionIn_init v vs =
     (case v of None \<Rightarrow> Inl TypeError
      | Some x \<Rightarrow> (case vs of None \<Rightarrow> Inl TypeError
          | Some cs \<Rightarrow> Inr (ConditionIn IN x cs)))"

text \<open>\<^verbatim>\<open>ConditionNot.__init__(self, expression)\<close>: the parameter is required.\<close>

definition ConditionNot_init :: "condition option \<Rightarrow> error + condition" where
  "ConditionNot_init e =
     (case e of None \<Rightarrow> Inl TypeError | Some c \<Rightarrow> Inr (ConditionNot NOT c))"

text \<open>
  \<^verbatim>\<open>ConditionOr.__init__(self, conditions=None)\<close> stores \<^verbatim>\<open>conditions or []\<close>.
  The default of the parameter is \<^verbatim>\<open>None\<close>, so here \<open>None\<close> is both the
  argument left out and the argument \<^verbatim>\<open>None\<close>. \<open>or_empty\<close> is the \<^verbatim>\<open>or []\<close>:
  \<^verbatim>\<open>None\<close> and the empty list are false.
\<close>

definition or_empty :: "'a list option \<Rightarrow> 'a list" where
  "or_empty xs = (case xs of None \<Rightarrow> [] | Some ys \<Rightarrow> if ys = [] then [] else ys)"

definition ConditionOr_init :: "condition list option \<Rightarrow> condition" where
  "ConditionOr_init cs = ConditionOr OR (or_empty cs)"


subsection \<open>Operands that can be rendered\<close>




subsection \<open>Rendering under the recursion limit\<close>




subsection \<open>Assignment to an attribute\<close>

text \<open>
  The assignment \<^verbatim>\<open>c.condition_type = t\<close>. \<^verbatim>\<open>Condition\<close> and
  \<^verbatim>\<open>ConditionComparison\<close> are declared with \<^verbatim>\<open>@attr.s\<close> without \<^verbatim>\<open>frozen=True\<close>,
  and the other classes are plain subclasses, so an instance of any of them
  accepts the assignment; the other attributes keep their values.
\<close>

fun set_condition_type :: "ConditionTypeEnum \<Rightarrow> condition \<Rightarrow> condition" where
  "set_condition_type t (ConditionComparison _ l r) = ConditionComparison t l r"
| "set_condition_type t (ConditionIn _ v vs) = ConditionIn t v vs"
| "set_condition_type t (ConditionNot _ c) = ConditionNot t c"
| "set_condition_type t (ConditionOr _ cs) = ConditionOr t cs"


section \<open>Auxiliary facts\<close>

lemmas subclass_init_defs =
  ConditionEquals_init_def ConditionGreaterThan_init_def
  ConditionGreaterThanOrEqualTo_init_def ConditionLessThan_init_def
  ConditionLessThanOrEqualTo_init_def comparison_subclass_init_def
  ConditionComparison_init_def

lemma ebind_Inr [simp]: "ebind (Inr x) f = f x"
  by (simp add: ebind_def)

lemma ebind_Inl [simp]: "ebind (Inl e) f = Inl e"
  by (simp add: ebind_def)

lemma primitive_or_expr_Deferred: "primitive_or_expr (Deferred c e) = Inr e"
  by (simp add: primitive_or_expr_def)

lemma primitive_or_expr_passthrough:
  "\<not> isinstance_deferred v \<Longrightarrow> primitive_or_expr v = Inr v"
  by (simp add: primitive_or_expr_def)

lemma isinstance_deferred_iff: "isinstance_deferred v \<longleftrightarrow> (\<exists>c e. v = Deferred c e)"
  by (cases v) simp_all

lemma primitive_or_expr_returns: "\<exists>r. primitive_or_expr v = Inr r"
  by (cases v) (simp_all add: primitive_or_expr_def)

lemma comprehension_Inr_iff:
  "comprehension f xs = Inr ys \<longleftrightarrow> map f xs = map Inr ys"
proof (induction xs arbitrary: ys)
  case Nil
  show ?case by auto
next
  case (Cons x xs)
  show ?case
  proof (cases "f x")
    case (Inl e)
    then show ?thesis by (cases ys) auto
  next
    case fx: (Inr y)
    show ?thesis
    proof (cases "comprehension f xs")
      case (Inl e)
      with fx Cons.IH show ?thesis by (cases ys) auto
    next
      case (Inr zs)
      with fx Cons.IH [of zs] Cons.IH show ?thesis by (cases ys) auto
    qed
  qed
qed

lemma comprehension_total:
  "(\<And>x. x \<in> set xs \<Longrightarrow> \<exists>y. f x = Inr y) \<Longrightarrow> \<exists>ys. comprehension f xs = Inr ys"
proof (induction xs)
  case Nil
  show ?case by simp
next
  case (Cons x xs)
  from Cons.prems obtain y where "f x = Inr y" by auto
  moreover from Cons obtain ys where "comprehension f xs = Inr ys" by auto
  ultimately show ?case by simp
qed

lemma to_request_all_comprehension: "to_request_all cs = comprehension to_request cs"
  by (induction cs) simp_all

lemma map_Inr_nth:
  "map f xs = map Inr ys \<longleftrightarrow> length ys = length xs \<and> (\<forall>i<length xs. f (xs ! i) = Inr (ys ! i))"
  by (auto simp: list_eq_iff_nth_eq)

lemma to_request_Comparison:
  assumes "getattr_expr a = Inr ae" and "primitive_or_expr b = Inr rb"
  shows "to_request (ConditionComparison t a b) =
    Inr (PDict [(''Type'', PStr (enum_value t)), (''LeftValue'', ae), (''RightValue'', rb)])"
  using assms by simp

lemma comprehension_primitive_or_expr:
  "\<exists>vs. comprehension primitive_or_expr cs = Inr vs"
  by (rule comprehension_total) (rule primitive_or_expr_returns)

lemma to_request_In:
  assumes "getattr_expr x = Inr qe"
  shows "\<exists>vs. map primitive_or_expr cs = map Inr vs \<and>
    to_request (ConditionIn t x cs) =
      Inr (PDict [(''Type'', PStr (enum_value t)), (''QueryValue'', qe), (''Values'', PList vs)])"
proof -
  obtain vs where vs: "comprehension primitive_or_expr cs = Inr vs"
    using comprehension_primitive_or_expr by blast
  then have "map primitive_or_expr cs = map Inr vs"
    by (simp only: comprehension_Inr_iff)
  with assms vs show ?thesis by simp
qed

lemma to_request_Or:
  assumes "\<forall>t\<in>set ts. \<exists>r. to_request t = Inr r"
  shows "\<exists>rs. map to_request ts = map Inr rs \<and>
    to_request (ConditionOr k ts) =
      Inr (PDict [(''Type'', PStr (enum_value k)), (''Conditions'', PList rs)])"
proof -
  obtain rs where rs: "comprehension to_request ts = Inr rs"
    using comprehension_total [of ts to_request] assms by blast
  then have "map to_request ts = map Inr rs"
    by (simp only: comprehension_Inr_iff)
  with rs show ?thesis by (simp add: to_request_all_comprehension)
qed

lemma to_request_Type:
  "to_request c = Inr q \<Longrightarrow> \<exists>rest. q = PDict ((''Type'', PStr (enum_value (condition_type c))) # rest)"
  by (cases c) (auto simp: ebind_def split: sum.splits)










section \<open>Comparisons\<close>

text \<open>
  Claim C1, as amended. For every left operand \<open>a\<close> whose \<^verbatim>\<open>expr\<close> can be read,
  with value \<open>ae\<close>, and every right operand \<open>b\<close>, each of the five comparison
  classes renders to \<^verbatim>\<open>{"Type": wire, "LeftValue": ae, "RightValue": rb}\<close> where
  \<open>rb\<close> is what \<^verbatim>\<open>primitive_or_expr\<close> returns on \<open>b\<close>. When \<open>a\<close> is an instance of one
  of the four deferred classes, \<open>ae\<close> is also what \<^verbatim>\<open>primitive_or_expr\<close> returns on
  \<open>a\<close>.
\<close>

theorem comparison_to_request:
  assumes "getattr_expr a = Inr ae"
  shows "\<exists>rb. primitive_or_expr b = Inr rb
    \<and> (isinstance_deferred a \<longrightarrow> primitive_or_expr a = Inr ae)
    \<and> ebind (ConditionEquals_init (Some a) (Some b)) to_request
        = Inr (PDict [(''Type'', PStr ''Equals''), (''LeftValue'', ae), (''RightValue'', rb)])
    \<and> ebind (ConditionGreaterThan_init (Some a) (Some b)) to_request
        = Inr (PDict [(''Type'', PStr ''GreaterThan''), (''LeftValue'', ae), (''RightValue'', rb)])
    \<and> ebind (ConditionGreaterThanOrEqualTo_init (Some a) (Some b)) to_request
        = Inr (PDict [(''Type'', PStr ''GreaterThanOrEqualTo''), (''LeftValue'', ae),
                      (''RightValue'', rb)])
    \<and> ebind (ConditionLessThan_init (Some a) (Some b)) to_request
        = Inr (PDict [(''Type'', PStr ''LessThan''), (''LeftValue'', ae), (''RightValue'', rb)])
    \<and> ebind (ConditionLessThanOrEqualTo_init (Some a) (Some b)) to_request
        = Inr (PDict [(''Type'', PStr ''LessThanOrEqualTo''), (''LeftValue'', ae),
                      (''RightValue'', rb)])"
proof -
  obtain rb where rb: "primitive_or_expr b = Inr rb"
    using primitive_or_expr_returns by blast
  have left: "isinstance_deferred a \<longrightarrow> primitive_or_expr a = Inr ae"
    using assms by (simp add: primitive_or_expr_def)
  have render: "to_request (ConditionComparison t a b) =
      Inr (PDict [(''Type'', PStr (enum_value t)), (''LeftValue'', ae), (''RightValue'', rb)])" for t
    using assms rb by (rule to_request_Comparison)
  show ?thesis
    using rb left render [of EQ] render [of GT] render [of GTE] render [of LT] render [of LTE]
    by (intro exI [of _ rb]) (simp add: subclass_init_defs)
qed

theorem comparison_to_request_witness:
  "getattr_expr (Deferred ExecutionVariable (PDict [(''Get'', PStr ''Execution.StartDateTime'')]))
     = Inr (PDict [(''Get'', PStr ''Execution.StartDateTime'')])
   \<and> ebind (ConditionLessThan_init
        (Some (Deferred ExecutionVariable (PDict [(''Get'', PStr ''Execution.StartDateTime'')])))
        (Some (PStr ''2020-12-01''))) to_request
     = Inr (PDict [(''Type'', PStr ''LessThan''),
                   (''LeftValue'', PDict [(''Get'', PStr ''Execution.StartDateTime'')]),
                   (''RightValue'', PStr ''2020-12-01'')])"
  using comparison_to_request
    [of "Deferred ExecutionVariable (PDict [(''Get'', PStr ''Execution.StartDateTime'')])"
        "PDict [(''Get'', PStr ''Execution.StartDateTime'')]" "PStr ''2020-12-01''"]
  by (simp add: primitive_or_expr_def)

text \<open>
  The left operand is not passed through \<^verbatim>\<open>primitive_or_expr\<close>: \<^verbatim>\<open>to_request\<close> reads
  \<^verbatim>\<open>self.left.expr\<close>. For the literal pair \<open>(1, 2)\<close> rendering raises
  \<^verbatim>\<open>AttributeError\<close> instead of producing a mapping.
\<close>

theorem comparison_literal_left_counterexample:
  "primitive_or_expr (PInt 1) = Inr (PInt 1) \<and> primitive_or_expr (PInt 2) = Inr (PInt 2)
   \<and> ebind (ConditionEquals_init (Some (PInt 1)) (Some (PInt 2))) to_request
       \<noteq> Inr (PDict [(''Type'', PStr ''Equals''), (''LeftValue'', PInt 1), (''RightValue'', PInt 2)])
   \<and> ebind (ConditionEquals_init (Some (PInt 1)) (Some (PInt 2))) to_request = Inl AttributeError"
  by (simp add: subclass_init_defs primitive_or_expr_def)


section \<open>Missing operands\<close>

text \<open>
  Claim C2, as amended. \<^verbatim>\<open>ConditionNot\<close> without its sub-condition, and each of the
  five fixed-kind comparison classes without its left or its right operand, is
  rejected at construction with \<^verbatim>\<open>TypeError\<close>; a node one of these constructors
  returns holds exactly the operands supplied. The generic
  \<^verbatim>\<open>ConditionComparison\<close> declares both operands with default \<^verbatim>\<open>None\<close>:
  constructing it without operands succeeds, and rendering that node raises
  \<^verbatim>\<open>AttributeError\<close>.
\<close>

theorem missing_operand_rejected:
  "ConditionNot_init None = Inl TypeError
   \<and> (ConditionNot_init e = Inr n \<longrightarrow> e = Some (expression n))
   \<and> (l = None \<or> r = None \<longrightarrow>
        ConditionEquals_init l r = Inl TypeError
      \<and> ConditionGreaterThan_init l r = Inl TypeError
      \<and> ConditionGreaterThanOrEqualTo_init l r = Inl TypeError
      \<and> ConditionLessThan_init l r = Inl TypeError
      \<and> ConditionLessThanOrEqualTo_init l r = Inl TypeError)
   \<and> (ConditionEquals_init l r = Inr k \<or> ConditionGreaterThan_init l r = Inr k
        \<or> ConditionGreaterThanOrEqualTo_init l r = Inr k \<or> ConditionLessThan_init l r = Inr k
        \<or> ConditionLessThanOrEqualTo_init l r = Inr k
        \<longrightarrow> l = Some (left k) \<and> r = Some (right k))
   \<and> ConditionComparison_init t None None = ConditionComparison t PNone PNone
   \<and> to_request (ConditionComparison_init t None None) = Inl AttributeError"
  by (auto simp: ConditionNot_init_def subclass_init_defs split: option.splits)

theorem missing_operand_rejected_witness:
  "ConditionNot_init (Some (ConditionOr OR [])) = Inr (ConditionNot NOT (ConditionOr OR []))
   \<and> Some (ConditionOr OR []) = Some (expression (ConditionNot NOT (ConditionOr OR [])))
   \<and> ConditionEquals_init None (Some (PInt 1)) = Inl TypeError
   \<and> ConditionLessThan_init (Some (Deferred Parameter (PStr ''p''))) None = Inl TypeError
   \<and> ConditionEquals_init (Some (Deferred Parameter (PStr ''p''))) (Some (PInt 1))
       = Inr (ConditionComparison EQ (Deferred Parameter (PStr ''p'')) (PInt 1))
   \<and> Some (Deferred Parameter (PStr ''p''))
       = Some (left (ConditionComparison EQ (Deferred Parameter (PStr ''p'')) (PInt 1)))"
  using missing_operand_rejected
      [of "Some (ConditionOr OR [])" "ConditionNot NOT (ConditionOr OR [])"
          None "Some (PInt 1)"]
    missing_operand_rejected [of _ _ "Some (Deferred Parameter (PStr ''p''))" None]
    missing_operand_rejected
      [of _ _ "Some (Deferred Parameter (PStr ''p''))" "Some (PInt 1)"
          "ConditionComparison EQ (Deferred Parameter (PStr ''p'')) (PInt 1)"]
  by (simp add: ConditionNot_init_def subclass_init_defs)

text \<open>
  The generic comparison built without operands (here with kind \<open>EQ\<close>) is a node,
  and the missing left operand is met only when the node is rendered.
\<close>

theorem generic_comparison_render_time_counterexample:
  "ConditionComparison_init EQ None None = ConditionComparison EQ PNone PNone
   \<and> to_request (ConditionComparison_init EQ None None) = Inl AttributeError"
  by (simp add: ConditionComparison_init_def)


section \<open>What the helper returns\<close>

text \<open>
  Claim C3. \<^verbatim>\<open>primitive_or_expr\<close> takes the \<^verbatim>\<open>isinstance\<close> branch exactly on the
  instances of the four classes execution variable, expression, parameter and
  property, and there returns the value of the operand's \<^verbatim>\<open>expr\<close>; every other
  operand, a literal or an object of any other class (even one that has an
  \<^verbatim>\<open>expr\<close> attribute), is returned unchanged. It never raises.
\<close>

theorem primitive_or_expr_deferred_or_passthrough:
  "(isinstance_deferred v \<longleftrightarrow>
      (\<exists>c e. c \<in> {ExecutionVariable, Expression, Parameter, Properties} \<and> v = Deferred c e))
   \<and> (isinstance_deferred v \<longrightarrow>
      (\<exists>e. getattr_expr v = Inr e \<and> primitive_or_expr v = Inr e))
   \<and> (\<not> isinstance_deferred v \<longrightarrow> primitive_or_expr v = Inr v)"
proof (intro conjI impI)
  show "isinstance_deferred v \<longleftrightarrow>
      (\<exists>c e. c \<in> {ExecutionVariable, Expression, Parameter, Properties} \<and> v = Deferred c e)"
  proof
    assume "isinstance_deferred v"
    then obtain c e where v: "v = Deferred c e" by (auto simp: isinstance_deferred_iff)
    have "c \<in> {ExecutionVariable, Expression, Parameter, Properties}" by (cases c) simp_all
    with v show "\<exists>c e. c \<in> {ExecutionVariable, Expression, Parameter, Properties} \<and> v = Deferred c e"
      by blast
  next
    assume "\<exists>c e. c \<in> {ExecutionVariable, Expression, Parameter, Properties} \<and> v = Deferred c e"
    then show "isinstance_deferred v" by auto
  qed
next
  assume "isinstance_deferred v"
  then obtain c e where "v = Deferred c e" by (auto simp: isinstance_deferred_iff)
  then show "\<exists>e. getattr_expr v = Inr e \<and> primitive_or_expr v = Inr e"
    by (simp add: primitive_or_expr_Deferred)
next
  assume "\<not> isinstance_deferred v"
  then show "primitive_or_expr v = Inr v" by (rule primitive_or_expr_passthrough)
qed

theorem primitive_or_expr_deferred_or_passthrough_witness:
  "isinstance_deferred (Deferred Parameter (PDict [(''Get'', PStr ''Parameters.Threshold'')]))
   \<and> primitive_or_expr (Deferred Parameter (PDict [(''Get'', PStr ''Parameters.Threshold'')]))
       = Inr (PDict [(''Get'', PStr ''Parameters.Threshold'')])
   \<and> \<not> isinstance_deferred (Instance ''Duck'' (Some (PStr ''quack'')))
   \<and> primitive_or_expr (Instance ''Duck'' (Some (PStr ''quack'')))
       = Inr (Instance ''Duck'' (Some (PStr ''quack'')))
   \<and> \<not> isinstance_deferred (PInt 1)
   \<and> primitive_or_expr (PInt 1) = Inr (PInt 1)"
  using primitive_or_expr_deferred_or_passthrough
          [of "Deferred Parameter (PDict [(''Get'', PStr ''Parameters.Threshold'')])"]
        primitive_or_expr_deferred_or_passthrough [of "Instance ''Duck'' (Some (PStr ''quack''))"]
        primitive_or_expr_deferred_or_passthrough [of "PInt 1"]
  by simp


section \<open>Defaulting of sequence arguments\<close>

text \<open>
  Claim C4, as amended. \<^verbatim>\<open>ConditionIn\<close> stores \<^verbatim>\<open>in_values\<close> as given and has no
  default for it: leaving the argument out is a \<^verbatim>\<open>TypeError\<close> at construction.
  The \<^verbatim>\<open>or []\<close> defaulting is that of \<^verbatim>\<open>ConditionOr\<close>: leaving \<^verbatim>\<open>conditions\<close> out and
  passing the empty list build the same node, with an empty sequence, and any
  other list is stored as given.
\<close>

theorem ConditionIn_no_default:
  "ConditionIn_init (Some x) (Some cs) = Inr (ConditionIn IN x cs)
   \<and> ConditionIn_init (Some x) None = Inl TypeError
   \<and> ConditionOr_init None = ConditionOr_init (Some [])
   \<and> conditions (ConditionOr_init None) = []
   \<and> conditions (ConditionOr_init (Some ts)) = ts"
  by (simp add: ConditionIn_init_def ConditionOr_init_def or_empty_def)

text \<open>
  For \<^verbatim>\<open>ConditionIn\<close> the argument left out and the empty list are told apart:
  the first raises, the second builds a node.
\<close>

theorem ConditionIn_omitted_counterexample:
  "ConditionIn_init (Some (Deferred Parameter (PStr ''p''))) None = Inl TypeError
   \<and> ConditionIn_init (Some (Deferred Parameter (PStr ''p''))) (Some [])
       = Inr (ConditionIn IN (Deferred Parameter (PStr ''p'')) [])
   \<and> ConditionIn_init (Some (Deferred Parameter (PStr ''p''))) None
       \<noteq> ConditionIn_init (Some (Deferred Parameter (PStr ''p''))) (Some [])"
  by (simp add: ConditionIn_init_def)


section \<open>The kind of a node\<close>

text \<open>
  Claim C5, as amended. None of the eight constructors takes a kind from its
  caller. The node each one returns has the kind of its class in
  \<^verbatim>\<open>condition_type\<close>, and whenever that node renders, the first item of the
  result is \<^verbatim>\<open>"Type"\<close> with the wire string of that kind. The kind is not
  protected afterwards: the classes are not frozen, and after an assignment to
  \<^verbatim>\<open>condition_type\<close> the node has the assigned member as its kind and renders
  with the wire string of the assigned member.
\<close>

theorem kind_fixed_by_constructor:
  "(ConditionEquals_init l r = Inr c \<longrightarrow> condition_type c = EQ
      \<and> (\<forall>q. to_request c = Inr q \<longrightarrow> (\<exists>rest. q = PDict ((''Type'', PStr ''Equals'') # rest))))
   \<and> (ConditionGreaterThan_init l r = Inr c \<longrightarrow> condition_type c = GT
      \<and> (\<forall>q. to_request c = Inr q \<longrightarrow>
            (\<exists>rest. q = PDict ((''Type'', PStr ''GreaterThan'') # rest))))
   \<and> (ConditionGreaterThanOrEqualTo_init l r = Inr c \<longrightarrow> condition_type c = GTE
      \<and> (\<forall>q. to_request c = Inr q \<longrightarrow>
            (\<exists>rest. q = PDict ((''Type'', PStr ''GreaterThanOrEqualTo'') # rest))))
   \<and> (ConditionLessThan_init l r = Inr c \<longrightarrow> condition_type c = LT
      \<and> (\<forall>q. to_request c = Inr q \<longrightarrow> (\<exists>rest. q = PDict ((''Type'', PStr ''LessThan'') # rest))))
   \<and> (ConditionLessThanOrEqualTo_init l r = Inr c \<longrightarrow> condition_type c = LTE
      \<and> (\<forall>q. to_request c = Inr q \<longrightarrow>
            (\<exists>rest. q = PDict ((''Type'', PStr ''LessThanOrEqualTo'') # rest))))
   \<and> (ConditionIn_init v vs = Inr c \<longrightarrow> condition_type c = IN
      \<and> (\<forall>q. to_request c = Inr q \<longrightarrow> (\<exists>rest. q = PDict ((''Type'', PStr ''In'') # rest))))
   \<and> (ConditionNot_init e = Inr c \<longrightarrow> condition_type c = NOT
      \<and> (\<forall>q. to_request c = Inr q \<longrightarrow> (\<exists>rest. q = PDict ((''Type'', PStr ''Not'') # rest))))
   \<and> condition_type (ConditionOr_init ts) = OR
   \<and> (\<forall>q. to_request (ConditionOr_init ts) = Inr q \<longrightarrow>
          (\<exists>rest. q = PDict ((''Type'', PStr ''Or'') # rest)))
   \<and> condition_type (set_condition_type t' c) = t'
   \<and> (\<forall>q. to_request (set_condition_type t' c) = Inr q \<longrightarrow>
          (\<exists>rest. q = PDict ((''Type'', PStr (enum_value t')) # rest)))"
proof -
  have render: "condition_type k = t \<Longrightarrow>
      \<forall>q. to_request k = Inr q \<longrightarrow> (\<exists>rest. q = PDict ((''Type'', PStr (enum_value t)) # rest))"
    for k t
    using to_request_Type [of k] by blast
  have cmp: "comparison_subclass_init t l r = Inr c \<Longrightarrow> condition_type c = t" for t
    by (auto simp: comparison_subclass_init_def ConditionComparison_init_def split: option.splits)
  have mem: "ConditionIn_init v vs = Inr c \<Longrightarrow> condition_type c = IN"
    by (auto simp: ConditionIn_init_def split: option.splits)
  have neg: "ConditionNot_init e = Inr c \<Longrightarrow> condition_type c = NOT"
    by (auto simp: ConditionNot_init_def split: option.splits)
  have dis: "condition_type (ConditionOr_init ts) = OR"
    by (simp add: ConditionOr_init_def)
  have asg: "condition_type (set_condition_type t' c) = t'"
    by (cases c) simp_all
  show ?thesis
    unfolding ConditionEquals_init_def ConditionGreaterThan_init_def
      ConditionGreaterThanOrEqualTo_init_def ConditionLessThan_init_def
      ConditionLessThanOrEqualTo_init_def
    using cmp [of EQ, THEN render] cmp [of GT, THEN render] cmp [of GTE, THEN render]
      cmp [of LT, THEN render] cmp [of LTE, THEN render] mem [THEN render] neg [THEN render]
      render [OF dis] render [OF asg]
      cmp [of EQ] cmp [of GT] cmp [of GTE] cmp [of LT] cmp [of LTE] mem neg dis asg
    by simp
qed

theorem kind_fixed_by_constructor_witness:
  "ConditionGreaterThan_init (Some (Deferred Parameter (PStr ''x''))) (Some (PInt 5))
     = Inr (ConditionComparison GT (Deferred Parameter (PStr ''x'')) (PInt 5))
   \<and> condition_type (ConditionComparison GT (Deferred Parameter (PStr ''x'')) (PInt 5)) = GT
   \<and> to_request (ConditionComparison GT (Deferred Parameter (PStr ''x'')) (PInt 5))
       = Inr (PDict ((''Type'', PStr ''GreaterThan'')
               # [(''LeftValue'', PStr ''x''), (''RightValue'', PInt 5)]))
   \<and> ConditionNot_init (Some (ConditionOr_init None)) = Inr (ConditionNot NOT (ConditionOr OR []))
   \<and> to_request (ConditionNot NOT (ConditionOr OR []))
       = Inr (PDict ((''Type'', PStr ''Not'')
               # [(''Expression'', PDict [(''Type'', PStr ''Or''), (''Conditions'', PList [])])]))
   \<and> condition_type (set_condition_type LTE
         (ConditionComparison GT (Deferred Parameter (PStr ''x'')) (PInt 5))) = LTE
   \<and> to_request (set_condition_type LTE
         (ConditionComparison GT (Deferred Parameter (PStr ''x'')) (PInt 5)))
       = Inr (PDict ((''Type'', PStr ''LessThanOrEqualTo'')
               # [(''LeftValue'', PStr ''x''), (''RightValue'', PInt 5)]))"
  using kind_fixed_by_constructor
      [of "Some (Deferred Parameter (PStr ''x''))" "Some (PInt 5)"
          "ConditionComparison GT (Deferred Parameter (PStr ''x'')) (PInt 5)" _ _ _ _ LTE]
    kind_fixed_by_constructor
      [of _ _ "ConditionNot NOT (ConditionOr OR [])" _ _ "Some (ConditionOr_init None)"]
  by (simp add: subclass_init_defs ConditionNot_init_def ConditionOr_init_def or_empty_def
        primitive_or_expr_def)

text \<open>
  A node built by \<^verbatim>\<open>ConditionEquals\<close> whose \<^verbatim>\<open>condition_type\<close> is then assigned
  \<^verbatim>\<open>ConditionTypeEnum.OR\<close>: its kind is no longer that of its class, and it
  renders with \<^verbatim>\<open>"Type": "Or"\<close>.
\<close>

theorem kind_reassigned_counterexample:
  "ConditionEquals_init (Some (Deferred Parameter (PStr ''x''))) (Some (PInt 1))
     = Inr (ConditionComparison EQ (Deferred Parameter (PStr ''x'')) (PInt 1))
   \<and> condition_type (set_condition_type OR
         (ConditionComparison EQ (Deferred Parameter (PStr ''x'')) (PInt 1))) \<noteq> EQ
   \<and> to_request (set_condition_type OR
         (ConditionComparison EQ (Deferred Parameter (PStr ''x'')) (PInt 1)))
       = Inr (PDict [(''Type'', PStr ''Or''), (''LeftValue'', PStr ''x''),
                     (''RightValue'', PInt 1)])"
  by (simp add: subclass_init_defs primitive_or_expr_def)


section \<open>Membership\<close>

text \<open>
  Claim C6. For a membership test whose \<^verbatim>\<open>value\<close> \<open>x\<close> exposes \<^verbatim>\<open>expr\<close>, with value
  \<open>qe\<close>, and any candidate list \<open>cs\<close>, rendering yields
  \<^verbatim>\<open>{"Type": "In", "QueryValue": qe, "Values": vs}\<close> where \<open>vs\<close> lists, candidate by
  candidate, what \<^verbatim>\<open>primitive_or_expr\<close> returns.
\<close>

theorem ConditionIn_to_request:
  assumes "getattr_expr x = Inr qe"
  shows "\<exists>vs. map primitive_or_expr cs = map Inr vs
    \<and> ebind (ConditionIn_init (Some x) (Some cs)) to_request
        = Inr (PDict [(''Type'', PStr ''In''), (''QueryValue'', qe), (''Values'', PList vs)])"
  using to_request_In [OF assms, of cs IN] by (simp add: ConditionIn_init_def)

theorem ConditionIn_to_request_witness:
  "getattr_expr (Deferred Parameter (PDict [(''Get'', PStr ''Parameters.X'')]))
     = Inr (PDict [(''Get'', PStr ''Parameters.X'')])
   \<and> ebind (ConditionIn_init (Some (Deferred Parameter (PDict [(''Get'', PStr ''Parameters.X'')])))
        (Some [PInt 1, PStr ''a'', Deferred Properties (PDict [(''Get'', PStr ''Steps.S.Y'')])]))
        to_request
     = Inr (PDict [(''Type'', PStr ''In''),
          (''QueryValue'', PDict [(''Get'', PStr ''Parameters.X'')]),
          (''Values'', PList [PInt 1, PStr ''a'', PDict [(''Get'', PStr ''Steps.S.Y'')]])])"
  using ConditionIn_to_request
    [of "Deferred Parameter (PDict [(''Get'', PStr ''Parameters.X'')])"
        "PDict [(''Get'', PStr ''Parameters.X'')]"
        "[PInt 1, PStr ''a'', Deferred Properties (PDict [(''Get'', PStr ''Steps.S.Y'')])]"]
  by (simp add: ConditionIn_init_def primitive_or_expr_def)


section \<open>Negation\<close>

text \<open>
  Claim C7. Rendering the negation of a condition \<open>c\<close> yields
  \<^verbatim>\<open>{"Type": "Not", "Expression": r}\<close> where \<open>r\<close> is the complete rendering of
  \<open>c\<close>; when rendering \<open>c\<close> raises, rendering the negation raises the same
  exception.
\<close>

theorem ConditionNot_to_request:
  "(to_request c = Inr r \<longrightarrow>
      ebind (ConditionNot_init (Some c)) to_request
        = Inr (PDict [(''Type'', PStr ''Not''), (''Expression'', r)]))
   \<and> (to_request c = Inl e \<longrightarrow> ebind (ConditionNot_init (Some c)) to_request = Inl e)"
  by (simp add: ConditionNot_init_def)

theorem ConditionNot_to_request_witness:
  "to_request (ConditionComparison EQ (Deferred Parameter (PDict [(''Get'', PStr ''Parameters.X'')])) (PInt 1))
     = Inr (PDict [(''Type'', PStr ''Equals''),
                   (''LeftValue'', PDict [(''Get'', PStr ''Parameters.X'')]),
                   (''RightValue'', PInt 1)])
   \<and> ebind (ConditionNot_init (Some (ConditionComparison EQ
          (Deferred Parameter (PDict [(''Get'', PStr ''Parameters.X'')])) (PInt 1)))) to_request
     = Inr (PDict [(''Type'', PStr ''Not''),
          (''Expression'', PDict [(''Type'', PStr ''Equals''),
                   (''LeftValue'', PDict [(''Get'', PStr ''Parameters.X'')]),
                   (''RightValue'', PInt 1)])])
   \<and> to_request (ConditionComparison EQ (PInt 2) (PInt 1)) = Inl AttributeError
   \<and> ebind (ConditionNot_init (Some (ConditionComparison EQ (PInt 2) (PInt 1)))) to_request
     = Inl AttributeError"
  using ConditionNot_to_request
      [of "ConditionComparison EQ (Deferred Parameter (PDict [(''Get'', PStr ''Parameters.X'')])) (PInt 1)"
          "PDict [(''Type'', PStr ''Equals''),
                   (''LeftValue'', PDict [(''Get'', PStr ''Parameters.X'')]),
                   (''RightValue'', PInt 1)]"]
    ConditionNot_to_request [of "ConditionComparison EQ (PInt 2) (PInt 1)" _ AttributeError]
  by (simp add: primitive_or_expr_def)


section \<open>Disjunction\<close>

text \<open>
  Claim C8. A \<^verbatim>\<open>ConditionOr\<close> built with its argument left out holds the empty
  sequence, as does one built from the empty list, and both render to
  \<^verbatim>\<open>{"Type": "Or", "Conditions": []}\<close>.
\<close>

theorem ConditionOr_default_empty:
  "ConditionOr_init None = ConditionOr OR []
   \<and> ConditionOr_init (Some []) = ConditionOr OR []
   \<and> to_request (ConditionOr_init None)
       = Inr (PDict [(''Type'', PStr ''Or''), (''Conditions'', PList [])])
   \<and> to_request (ConditionOr_init (Some []))
       = Inr (PDict [(''Type'', PStr ''Or''), (''Conditions'', PList [])])"
  by (simp add: ConditionOr_init_def or_empty_def)


section \<open>Order of candidates and terms\<close>

text \<open>
  Claim C9. Let \<open>cs'\<close> be any permutation of a candidate list \<open>cs\<close> and \<open>ts'\<close> any
  permutation of a list \<open>ts\<close> of terms that all render. The membership test
  built from \<open>cs'\<close> renders \<^verbatim>\<open>"Values"\<close> as the list whose \<open>i\<close>-th element is what
  \<^verbatim>\<open>primitive_or_expr\<close> returns on the \<open>i\<close>-th element of \<open>cs'\<close>, and the
  disjunction built from \<open>ts'\<close> renders \<^verbatim>\<open>"Conditions"\<close> as the list whose \<open>i\<close>-th
  element is the rendering of the \<open>i\<close>-th element of \<open>ts'\<close>.
\<close>

theorem order_preserved:
  assumes "mset cs' = mset cs" and "getattr_expr x = Inr qe"
    and "mset ts' = mset ts" and "\<forall>t\<in>set ts. \<exists>r. to_request t = Inr r"
  shows "(\<exists>vs. ebind (ConditionIn_init (Some x) (Some cs')) to_request
             = Inr (PDict [(''Type'', PStr ''In''), (''QueryValue'', qe), (''Values'', PList vs)])
           \<and> length vs = length cs'
           \<and> (\<forall>i<length cs'. primitive_or_expr (cs' ! i) = Inr (vs ! i)))
       \<and> (\<exists>rs. to_request (ConditionOr_init (Some ts'))
             = Inr (PDict [(''Type'', PStr ''Or''), (''Conditions'', PList rs)])
           \<and> length rs = length ts'
           \<and> (\<forall>i<length ts'. to_request (ts' ! i) = Inr (rs ! i)))"
proof
  obtain vs where "map primitive_or_expr cs' = map Inr vs"
    and "to_request (ConditionIn IN x cs') =
      Inr (PDict [(''Type'', PStr (enum_value IN)), (''QueryValue'', qe), (''Values'', PList vs)])"
    using to_request_In [OF assms(2), of cs' IN] by blast
  then show "\<exists>vs. ebind (ConditionIn_init (Some x) (Some cs')) to_request
             = Inr (PDict [(''Type'', PStr ''In''), (''QueryValue'', qe), (''Values'', PList vs)])
           \<and> length vs = length cs'
           \<and> (\<forall>i<length cs'. primitive_or_expr (cs' ! i) = Inr (vs ! i))"
    by (intro exI [of _ vs]) (simp add: ConditionIn_init_def map_Inr_nth)
next
  from assms(3) have "set ts' = set ts" by (rule mset_eq_setD)
  with assms(4) have all: "\<forall>t\<in>set ts'. \<exists>r. to_request t = Inr r" by simp
  obtain rs where "map to_request ts' = map Inr rs"
    and "to_request (ConditionOr OR ts') =
      Inr (PDict [(''Type'', PStr (enum_value OR)), (''Conditions'', PList rs)])"
    using to_request_Or [OF all, of OR] by blast
  then show "\<exists>rs. to_request (ConditionOr_init (Some ts'))
             = Inr (PDict [(''Type'', PStr ''Or''), (''Conditions'', PList rs)])
           \<and> length rs = length ts'
           \<and> (\<forall>i<length ts'. to_request (ts' ! i) = Inr (rs ! i))"
    by (intro exI [of _ rs]) (simp add: ConditionOr_init_def or_empty_def map_Inr_nth)
qed


theorem order_preserved_witness:
  "mset [Deferred Properties (PStr ''y''), PInt 1, PStr ''a'']
     = mset [PInt 1, PStr ''a'', Deferred Properties (PStr ''y'')]
   \<and> getattr_expr (Deferred Parameter (PStr ''x'')) = Inr (PStr ''x'')
   \<and> mset [ConditionNot NOT (ConditionOr OR []),
            ConditionComparison EQ (Deferred Parameter (PStr ''x'')) (PInt 1)]
     = mset [ConditionComparison EQ (Deferred Parameter (PStr ''x'')) (PInt 1),
            ConditionNot NOT (ConditionOr OR [])]
   \<and> (\<exists>r. to_request (ConditionComparison EQ (Deferred Parameter (PStr ''x'')) (PInt 1)) = Inr r)
   \<and> (\<exists>r. to_request (ConditionNot NOT (ConditionOr OR [])) = Inr r)
   \<and> ebind (ConditionIn_init (Some (Deferred Parameter (PStr ''x'')))
        (Some [Deferred Properties (PStr ''y''), PInt 1, PStr ''a''])) to_request
     = Inr (PDict [(''Type'', PStr ''In''), (''QueryValue'', PStr ''x''),
                   (''Values'', PList [PStr ''y'', PInt 1, PStr ''a''])])
   \<and> to_request (ConditionOr_init (Some [ConditionNot NOT (ConditionOr OR []),
            ConditionComparison EQ (Deferred Parameter (PStr ''x'')) (PInt 1)]))
     = Inr (PDict [(''Type'', PStr ''Or''),
          (''Conditions'', PList
            [PDict [(''Type'', PStr ''Not''),
                    (''Expression'', PDict [(''Type'', PStr ''Or''), (''Conditions'', PList [])])],
             PDict [(''Type'', PStr ''Equals''), (''LeftValue'', PStr ''x''),
                    (''RightValue'', PInt 1)]])])"
proof -
  have h1: "mset [Deferred Properties (PStr ''y''), PInt 1, PStr ''a'']
     = mset [PInt 1, PStr ''a'', Deferred Properties (PStr ''y'')]" by simp
  have h2: "getattr_expr (Deferred Parameter (PStr ''x'')) = Inr (PStr ''x'')" by simp
  have h3: "mset [ConditionNot NOT (ConditionOr OR []),
            ConditionComparison EQ (Deferred Parameter (PStr ''x'')) (PInt 1)]
     = mset [ConditionComparison EQ (Deferred Parameter (PStr ''x'')) (PInt 1),
            ConditionNot NOT (ConditionOr OR [])]" by simp
  have h4: "\<forall>t\<in>set [ConditionComparison EQ (Deferred Parameter (PStr ''x'')) (PInt 1),
                 ConditionNot NOT (ConditionOr OR [])]. \<exists>r. to_request t = Inr r"
    by (simp add: primitive_or_expr_def)
  show ?thesis
    using h1 h2 h3 h4 order_preserved [OF h1 h2 h3 h4]
    by (simp add: ConditionIn_init_def ConditionOr_init_def or_empty_def primitive_or_expr_def)
qed


section \<open>Rendering ends\<close>




end
